theory Spec2Isabelle
  imports Complex_Main "HOL-Library.List_Lexorder" "HOL-Library.Char_ord"
begin

section \<open>Data model\<close>

text \<open>
  The tables of \<^verbatim>\<open>src/db/schema.ts\<close> are lists of rows, in the order a query
  returns them. Only the columns that the modelled functions read or write are kept.
  Identifiers (uuid columns) are strings. A calendar date (a \<^verbatim>\<open>date\<close> column, the
  string \<^verbatim>\<open>YYYY-MM-DD\<close> in the TypeScript) is the number of days since 1970-01-01,
  so that \<^verbatim>\<open>addDays\<close> is addition and equality of dates is equality of numbers.
  A clock time (a \<^verbatim>\<open>time\<close> column) is the string the code handles, \<^verbatim>\<open>HH:MM\<close> or
  \<^verbatim>\<open>HH:MM:SS\<close>. An instant is a number of epoch milliseconds, as \<^verbatim>\<open>Date.getTime()\<close>.
\<close>

type_synonym ident = string
type_synonym date = int
type_synonym instant = int

datatype role = ADMIN | MANAGER | STAFF
datatype swapType = SWAP | DROP
datatype swapStatus = PENDING | APPROVED | DENIED | CANCELLED | ACCEPTED_BY_TARGET
datatype dayOfWeek = MON | TUE | WED | THU | FRI | SAT | SUN

record user =
  user_id :: ident
  user_name :: string
  user_role :: role

record staffSkill =
  sk_staffId :: ident
  sk_skillId :: ident

record staffLocationCert =
  cert_staffId :: ident
  cert_locationId :: ident

record availabilityRule =
  rule_staffId :: ident
  rule_dayOfWeek :: dayOfWeek
  rule_startTime :: string
  rule_endTime :: string

record availabilityException =
  exc_staffId :: ident
  exc_date :: date
  exc_isAvailable :: bool
  exc_startTime :: "string option"
  exc_endTime :: "string option"
  exc_reason :: "string option"

record shift =
  shift_id :: ident
  shift_locationId :: ident
  shift_date :: date
  shift_startTime :: string
  shift_endTime :: string
  shift_skillId :: ident
  shift_headcount :: int
  shift_isPublished :: bool
  shift_publishedAt :: "instant option"
  shift_version :: int
  shift_createdBy :: ident
  shift_updatedAt :: instant

record shiftAssignment =
  asg_id :: ident
  asg_shiftId :: ident
  asg_staffId :: ident
  asg_assignedBy :: ident
  asg_assignedAt :: instant

record swapRequest =
  req_id :: ident
  req_shiftAssignmentId :: ident
  req_requestedBy :: ident
  req_type :: swapType
  req_targetStaffId :: "ident option"
  req_status :: swapStatus
  req_reviewedBy :: "ident option"
  req_reviewedAt :: "instant option"
  req_reviewNotes :: "string option"
  req_updatedAt :: instant

record db =
  users :: "user list"
  staffSkills :: "staffSkill list"
  staffLocationCerts :: "staffLocationCert list"
  availabilityRules :: "availabilityRule list"
  availabilityExceptions :: "availabilityException list"
  shifts :: "shift list"
  shiftAssignments :: "shiftAssignment list"
  swapRequests :: "swapRequest list"

text \<open>
  What the JavaScript runtime's \<^verbatim>\<open>Date\<close> computes from the server's time zone is a
  parameter of the model: \<open>env_midnight d\<close> is \<^verbatim>\<open>new Date(d + 'T00:00:00').getTime()\<close>,
  \<open>env_instant d t\<close> is \<^verbatim>\<open>new Date(`${d}T${t}`).getTime()\<close>, and \<open>env_isoDay d\<close> is the
  calendar day that \<^verbatim>\<open>toISOString().slice(0, 10)\<close> prints for the local midnight of \<open>d\<close>.
\<close>

record env =
  env_midnight :: "date \<Rightarrow> instant"
  env_instant :: "date \<Rightarrow> string \<Rightarrow> instant"
  env_isoDay :: "date \<Rightarrow> date"

text \<open>
  A message is a template literal: its fixed pieces and its interpolated values, in order.
  The rendering of an interpolated number by \<^verbatim>\<open>toFixed(1)\<close> and of a date is not modelled.
  Hours are exact rationals where the TypeScript computes in binary floating point.
\<close>

datatype part = Str string | Fixed1 rat | DateStr date

type_synonym message = "part list"

datatype severity = Error | Warning

record constraintViolation =
  v_type :: severity
  v_code :: string
  v_message :: message

record assignmentValidationResult =
  valid :: bool
  violations :: "constraintViolation list"
  suggestions :: "message list option"

record shiftData =
  sd_id :: ident
  sd_locationId :: ident
  sd_date :: date
  sd_startTime :: string
  sd_endTime :: string
  sd_skillId :: ident

record availabilityCheck =
  available :: bool
  reason :: "message option"

section \<open>Time and interval helpers (src/lib/constraints.ts)\<close>

text \<open>
  \<open>splitOn\<close> is \<^verbatim>\<open>String.prototype.split\<close> with a one-character separator and
  \<open>Number\<close> is the conversion of a string of decimal digits. A clock string
  (\<open>clockString\<close>) is two digits, a colon and two digits, with an optional seconds
  part; the schema validation of the actions and the \<^verbatim>\<open>time\<close> columns admit nothing
  else. On any other string JavaScript computes \<^verbatim>\<open>NaN\<close>, which is outside the model.
\<close>

fun splitOn :: "char \<Rightarrow> string \<Rightarrow> string list" where
  "splitOn sep [] = [] # []"
| "splitOn sep (c # cs) =
     (if c = sep then [] # splitOn sep cs
      else (case splitOn sep cs of w # ws \<Rightarrow> (c # w) # ws | [] \<Rightarrow> [c] # []))"

definition isDigit :: "char \<Rightarrow> bool" where
  "isDigit c = (CHR ''0'' \<le> c \<and> c \<le> CHR ''9'')"

definition Number :: "string \<Rightarrow> int" where
  "Number s = foldl (\<lambda>n c. 10 * n + (int (of_char c) - 48)) 0 s"

definition clockString :: "string \<Rightarrow> bool" where
  "clockString s =
     (case s of
        [h1, h2, c1, m1, m2] \<Rightarrow>
          isDigit h1 \<and> isDigit h2 \<and> c1 = CHR '':'' \<and> isDigit m1 \<and> isDigit m2
      | [h1, h2, c1, m1, m2, c2, s1, s2] \<Rightarrow>
          isDigit h1 \<and> isDigit h2 \<and> c1 = CHR '':'' \<and> isDigit m1 \<and> isDigit m2 \<and>
          c2 = CHR '':'' \<and> isDigit s1 \<and> isDigit s2
      | _ \<Rightarrow> False)"

definition toMinutes :: "string \<Rightarrow> int" where
  "toMinutes time =
     (case map Number (splitOn CHR '':'' time) of
        h # m # _ \<Rightarrow> h * 60 + m
      | _ \<Rightarrow> 0)"

definition isOvernightShift :: "string \<Rightarrow> string \<Rightarrow> bool" where
  "isOvernightShift startTime endTime = (endTime \<le> startTime)"

definition shiftDurationHours :: "string \<Rightarrow> string \<Rightarrow> rat" where
  "shiftDurationHours startTime endTime =
     (let mins = toMinutes endTime - toMinutes startTime;
          mins' = (if mins \<le> 0 then mins + 24 * 60 else mins)
      in of_int mins' / 60)"

definition absoluteRange :: "string \<Rightarrow> string \<Rightarrow> int \<times> int" where
  "absoluteRange startTime endTime =
     (let s = toMinutes startTime;
          e = toMinutes endTime;
          e' = (if e \<le> s then e + 24 * 60 else e)
      in (s, e'))"

definition DAY_NAMES :: "string list" where
  "DAY_NAMES = [''Sunday'', ''Monday'', ''Tuesday'', ''Wednesday'', ''Thursday'',
                ''Friday'', ''Saturday'']"

definition DAY_ENUMS :: "dayOfWeek list" where
  "DAY_ENUMS = [SUN, MON, TUE, WED, THU, FRI, SAT]"

text \<open>\<^verbatim>\<open>Date.getDay()\<close> of a calendar day: 0 is Sunday, and 1970-01-01 was a Thursday.\<close>

definition getDay :: "date \<Rightarrow> nat" where
  "getDay d = nat ((d + 4) mod 7)"

definition getDayInfo :: "date \<Rightarrow> string \<times> dayOfWeek" where
  "getDayInfo d = (DAY_NAMES ! getDay d, DAY_ENUMS ! getDay d)"

definition addDays :: "date \<Rightarrow> int \<Rightarrow> date" where
  "addDays d n = d + n"

section \<open>The constraint engine (src/lib/constraints.ts)\<close>

definition checkSkillMatch :: "db \<Rightarrow> ident \<Rightarrow> ident \<Rightarrow> bool" where
  "checkSkillMatch d staffId skillId =
     (let result = take 1 (filter (\<lambda>r. sk_staffId r = staffId \<and> sk_skillId r = skillId)
                                  (staffSkills d))
      in length result > 0)"

definition checkLocationCertification :: "db \<Rightarrow> ident \<Rightarrow> ident \<Rightarrow> bool" where
  "checkLocationCertification d staffId locationId =
     (let result = take 1 (filter (\<lambda>r. cert_staffId r = staffId \<and> cert_locationId r = locationId)
                                  (staffLocationCerts d))
      in length result > 0)"

text \<open>\<^verbatim>\<open>a || b\<close> on a nullable string: \<^verbatim>\<open>null\<close> and the empty string are falsy.\<close>

definition orElse :: "string option \<Rightarrow> string \<Rightarrow> string" where
  "orElse a b = (case a of None \<Rightarrow> b | Some x \<Rightarrow> if x = [] then b else x)"

definition checkSingleDayAvailability ::
  "db \<Rightarrow> ident \<Rightarrow> date \<Rightarrow> string \<Rightarrow> string \<Rightarrow> availabilityCheck" where
  "checkSingleDayAvailability d staffId date startTime endTime =
     (let (dayName, dayEnum) = getDayInfo date;
          rules = filter (\<lambda>r. rule_staffId r = staffId \<and> rule_dayOfWeek r = dayEnum)
                         (availabilityRules d)
      in if length rules = 0
         then \<lparr>available = False,
               reason = Some [Str ''Staff has no availability set for '', Str dayName]\<rparr>
         else
           let needStart = toMinutes startTime;
               needEnd = toMinutes endTime
           in if list_ex (\<lambda>rule. needStart \<ge> toMinutes (rule_startTime rule) \<and>
                                   needEnd \<le> toMinutes (rule_endTime rule)) rules
              then \<lparr>available = True, reason = None\<rparr>
              else \<lparr>available = False,
                    reason = Some [Str ''Shift time ('', Str startTime, Str ''-'', Str endTime,
                                   Str '') falls outside staff availability on '', Str dayName]\<rparr>)"

definition checkAvailability ::
  "db \<Rightarrow> ident \<Rightarrow> date \<Rightarrow> string \<Rightarrow> string \<Rightarrow> availabilityCheck" where
  "checkAvailability d staffId date startTime endTime =
     (let exceptions = filter (\<lambda>e. exc_staffId e = staffId \<and> exc_date e = date)
                              (availabilityExceptions d)
      in case find (\<lambda>e. \<not> exc_isAvailable e) exceptions of
           Some exception \<Rightarrow>
             \<lparr>available = False,
              reason = Some [Str (orElse (exc_reason exception)
                                         ''Staff marked as unavailable on this date'')]\<rparr>
         | None \<Rightarrow>
             let overnight = isOvernightShift startTime endTime
             in if \<not> overnight
                then checkSingleDayAvailability d staffId date startTime endTime
                else
                  let day1 = checkSingleDayAvailability d staffId date startTime ''23:59''
                  in if \<not> available day1
                     then \<lparr>available = False,
                           reason = Some [Str ''Overnight shift starts at '', Str startTime,
                                          Str '' but staff availability on '',
                                          Str (fst (getDayInfo date)),
                                          Str '' does not cover that time'']\<rparr>
                     else
                       let nextDate = addDays date 1;
                           day2Exceptions =
                             filter (\<lambda>e. exc_staffId e = staffId \<and> exc_date e = nextDate)
                                    (availabilityExceptions d)
                       in case find (\<lambda>e. \<not> exc_isAvailable e) day2Exceptions of
                            Some exception \<Rightarrow>
                              \<lparr>available = False,
                               reason = Some [Str (orElse (exc_reason exception)
                                 ''Staff marked as unavailable on the next date (overnight shift spans two days)'')]\<rparr>
                          | None \<Rightarrow>
                              let day2 = checkSingleDayAvailability d staffId nextDate ''00:00'' endTime
                              in if \<not> available day2
                                 then \<lparr>available = False,
                                       reason = Some [Str ''Overnight shift ends at '', Str endTime,
                                                      Str '' but staff availability on '',
                                                      Str (fst (getDayInfo nextDate)),
                                                      Str '' does not cover that time'']\<rparr>
                                 else \<lparr>available = True, reason = None\<rparr>)"

text \<open>
  The join of \<^verbatim>\<open>shift_assignments\<close> with \<^verbatim>\<open>shifts\<close> for one worker: one shift row
  for every assignment of the worker.
\<close>

definition assignedShifts :: "db \<Rightarrow> ident \<Rightarrow> shift list" where
  "assignedShifts d staffId =
     [s. a \<leftarrow> shiftAssignments d, s \<leftarrow> shifts d,
         asg_shiftId a = shift_id s, asg_staffId a = staffId]"

definition checkShiftOverlap :: "env \<Rightarrow> db \<Rightarrow> ident \<Rightarrow> shiftData \<Rightarrow> bool" where
  "checkShiftOverlap ev d staffId newShift =
     (let overnight = isOvernightShift (sd_startTime newShift) (sd_endTime newShift);
          datesToCheck = [sd_date newShift]
                         @ (if overnight then [addDays (sd_date newShift) 1] else [])
                         @ [addDays (sd_date newShift) (- 1)];
          assignments = filter (\<lambda>s. shift_date s \<in> set datesToCheck \<and> shift_id s \<noteq> sd_id newShift)
                               (assignedShifts d staffId);
          newRange = absoluteRange (sd_startTime newShift) (sd_endTime newShift);
          newDateBase = env_midnight ev (sd_date newShift);
          newAbsStart = newDateBase + fst newRange * 60000;
          newAbsEnd = newDateBase + snd newRange * 60000
      in list_ex (\<lambda>s.
           let existingRange = absoluteRange (shift_startTime s) (shift_endTime s);
               existingDateBase = env_midnight ev (shift_date s);
               existingAbsStart = existingDateBase + fst existingRange * 60000;
               existingAbsEnd = existingDateBase + snd existingRange * 60000
           in newAbsStart < existingAbsEnd \<and> existingAbsStart < newAbsEnd) assignments)"

text \<open>
  The loop of \<^verbatim>\<open>check10HourRest\<close> over the neighbouring assignments, returning at the
  first one that is too close.
\<close>

fun restLoop :: "env \<Rightarrow> instant \<Rightarrow> instant \<Rightarrow> shift list \<Rightarrow> message option" where
  "restLoop ev newAbsStart newAbsEnd [] = None"
| "restLoop ev newAbsStart newAbsEnd (s # rest) =
     (let existingDateBase = env_midnight ev (shift_date s);
          existingRange = absoluteRange (shift_startTime s) (shift_endTime s);
          existingAbsStart = existingDateBase + fst existingRange * 60000;
          existingAbsEnd = existingDateBase + snd existingRange * 60000;
          hoursAfterExisting = (of_int (newAbsStart - existingAbsEnd) :: rat) / (1000 * 60 * 60);
          hoursBeforeExisting = (of_int (existingAbsStart - newAbsEnd) :: rat) / (1000 * 60 * 60)
      in if hoursAfterExisting > 0 \<and> hoursAfterExisting < 10
         then Some [Str ''Only '', Fixed1 hoursAfterExisting,
                    Str '' hours of rest after previous shift. Minimum 10 hours required.'']
         else if hoursBeforeExisting > 0 \<and> hoursBeforeExisting < 10
         then Some [Str ''Only '', Fixed1 hoursBeforeExisting,
                    Str '' hours of rest before next shift. Minimum 10 hours required.'']
         else restLoop ev newAbsStart newAbsEnd rest)"

definition adjacentAssignments :: "db \<Rightarrow> ident \<Rightarrow> date \<Rightarrow> shift list" where
  "adjacentAssignments d staffId date =
     (let dayBefore = addDays date (- 1);
          dayAfter = addDays date 1;
          dayAfter2 = addDays date 2
      in filter (\<lambda>s. shift_date s = dayBefore \<or> shift_date s = date \<or>
                      shift_date s = dayAfter \<or> shift_date s = dayAfter2)
                (assignedShifts d staffId))"

definition check10HourRest :: "env \<Rightarrow> db \<Rightarrow> ident \<Rightarrow> shiftData \<Rightarrow> message option" where
  "check10HourRest ev d staffId newShift =
     (let newDateBase = env_midnight ev (sd_date newShift);
          newRange = absoluteRange (sd_startTime newShift) (sd_endTime newShift);
          newAbsStart = newDateBase + fst newRange * 60000;
          newAbsEnd = newDateBase + snd newRange * 60000
      in restLoop ev newAbsStart newAbsEnd (adjacentAssignments d staffId (sd_date newShift)))"

definition getDailyHours :: "db \<Rightarrow> ident \<Rightarrow> date \<Rightarrow> rat" where
  "getDailyHours d staffId date =
     foldl (\<lambda>totalHours s. totalHours + shiftDurationHours (shift_startTime s) (shift_endTime s)) 0
           (filter (\<lambda>s. shift_date s = date) (assignedShifts d staffId))"

definition getWeeklyHours :: "db \<Rightarrow> ident \<Rightarrow> date \<Rightarrow> rat" where
  "getWeeklyHours d staffId date =
     (let dayOfWeek = int (getDay date);
          monday = date - (if dayOfWeek = 0 then 6 else dayOfWeek - 1);
          sunday = monday + 6
      in foldl (\<lambda>totalHours s. totalHours + shiftDurationHours (shift_startTime s) (shift_endTime s)) 0
               (filter (\<lambda>s. shift_date s \<ge> monday \<and> shift_date s \<le> sunday)
                       (assignedShifts d staffId)))"

text \<open>
  One of the two loops of \<^verbatim>\<open>getConsecutiveDays\<close>: at most \<open>n\<close> iterations, walking from
  \<open>currentDate\<close> in steps of \<open>step\<close> days while the worker has an assignment on the day.
\<close>

fun countDays :: "db \<Rightarrow> ident \<Rightarrow> int \<Rightarrow> nat \<Rightarrow> date \<Rightarrow> int" where
  "countDays d staffId step 0 currentDate = 0"
| "countDays d staffId step (Suc n) currentDate =
     (if length (take 1 (filter (\<lambda>s. shift_date s = currentDate) (assignedShifts d staffId))) > 0
      then 1 + countDays d staffId step n (currentDate + step)
      else 0)"

definition getConsecutiveDays :: "db \<Rightarrow> ident \<Rightarrow> date \<Rightarrow> int" where
  "getConsecutiveDays d staffId date =
     (let daysBefore = countDays d staffId (- 1) 14 (date - 1);
          daysAfter = countDays d staffId 1 14 (date + 1)
      in daysBefore + 1 + daysAfter)"

definition checkLaborLimits :: "db \<Rightarrow> ident \<Rightarrow> shiftData \<Rightarrow> constraintViolation list" where
  "checkLaborLimits d staffId newShift =
     (let shiftHours = shiftDurationHours (sd_startTime newShift) (sd_endTime newShift);
          dailyHours = getDailyHours d staffId (sd_date newShift);
          totalDailyHours = dailyHours + shiftHours;
          daily =
            (if totalDailyHours > 12
             then [\<lparr>v_type = Error, v_code = ''DAILY_HOURS_HARD_LIMIT'',
                    v_message = [Str ''This assignment would result in '', Fixed1 totalDailyHours,
                                 Str '' hours on '', DateStr (sd_date newShift),
                                 Str ''. Cannot exceed 12 hours in a single day.'']\<rparr>]
             else if totalDailyHours > 8
             then [\<lparr>v_type = Warning, v_code = ''DAILY_HOURS_WARNING'',
                    v_message = [Str ''This assignment would result in '', Fixed1 totalDailyHours,
                                 Str '' hours on '', DateStr (sd_date newShift),
                                 Str ''. Standard daily limit is 8 hours.'']\<rparr>]
             else []);
          weeklyHours = getWeeklyHours d staffId (sd_date newShift);
          totalWeeklyHours = weeklyHours + shiftHours;
          weekly =
            (if totalWeeklyHours \<ge> 40
             then [\<lparr>v_type = Warning, v_code = ''WEEKLY_OVERTIME'',
                    v_message = [Str ''This assignment would result in '', Fixed1 totalWeeklyHours,
                                 Str '' hours this week. Overtime hours: '',
                                 Fixed1 (totalWeeklyHours - 40)]\<rparr>]
             else if totalWeeklyHours \<ge> 35
             then [\<lparr>v_type = Warning, v_code = ''WEEKLY_HOURS_APPROACHING_OVERTIME'',
                    v_message = [Str ''This assignment would result in '', Fixed1 totalWeeklyHours,
                                 Str '' hours this week. Approaching 40-hour overtime threshold.'']\<rparr>]
             else []);
          consecutiveDays = getConsecutiveDays d staffId (sd_date newShift);
          consecutive =
            (if consecutiveDays \<ge> 7
             then [\<lparr>v_type = Error, v_code = ''SEVENTH_CONSECUTIVE_DAY'',
                    v_message = [Str ''Staff member would work their 7th consecutive day. This requires manager override with documented reason.'']\<rparr>]
             else if consecutiveDays \<ge> 6
             then [\<lparr>v_type = Warning, v_code = ''SIXTH_CONSECUTIVE_DAY'',
                    v_message = [Str ''Staff member would work their 6th consecutive day. Consider scheduling a rest day.'']\<rparr>]
             else [])
      in daily @ weekly @ consecutive)"

definition findStaffWithSkill :: "db \<Rightarrow> ident \<Rightarrow> ident \<Rightarrow> (ident \<times> string) list" where
  "findStaffWithSkill d skillId locationId =
     take 10 [(user_id u, user_name u).
                u \<leftarrow> users d, sk \<leftarrow> staffSkills d, user_id u = sk_staffId sk,
                c \<leftarrow> staffLocationCerts d, user_id u = cert_staffId c,
                sk_skillId sk = skillId, cert_locationId c = locationId, user_role u = STAFF]"

text \<open>\<^verbatim>\<open>Array.prototype.join\<close> on the interpolated names, as pieces of the message.\<close>

fun joinWith :: "message \<Rightarrow> message list \<Rightarrow> message" where
  "joinWith sep [] = []"
| "joinWith sep [m] = m"
| "joinWith sep (m # ms) = m @ sep @ joinWith sep ms"

definition validateAssignment ::
  "env \<Rightarrow> db \<Rightarrow> ident \<Rightarrow> shiftData \<Rightarrow> assignmentValidationResult" where
  "validateAssignment ev d staffId shift =
     (let v1 = (if \<not> checkSkillMatch d staffId (sd_skillId shift)
                then [\<lparr>v_type = Error, v_code = ''SKILL_MISMATCH'',
                       v_message = [Str ''Staff member does not have the required skill for this shift'']\<rparr>]
                else []);
          v2 = (if \<not> checkLocationCertification d staffId (sd_locationId shift)
                then [\<lparr>v_type = Error, v_code = ''LOCATION_NOT_CERTIFIED'',
                       v_message = [Str ''Staff member is not certified to work at this location'']\<rparr>]
                else []);
          availabilityCheck = checkAvailability d staffId (sd_date shift)
                                (sd_startTime shift) (sd_endTime shift);
          v3 = (if \<not> available availabilityCheck
                then [\<lparr>v_type = Error, v_code = ''NOT_AVAILABLE'',
                       v_message = (case reason availabilityCheck of
                                      Some r \<Rightarrow> if list_all (\<lambda>p. p = Str []) r
                                                then [Str ''Staff member is not available at this time'']
                                                else r
                                    | None \<Rightarrow> [Str ''Staff member is not available at this time''])\<rparr>]
                else []);
          v4 = (if checkShiftOverlap ev d staffId shift
                then [\<lparr>v_type = Error, v_code = ''SHIFT_OVERLAP'',
                       v_message = [Str ''Staff member has an overlapping shift at this time'']\<rparr>]
                else []);
          v5 = (case check10HourRest ev d staffId shift of
                  Some restPeriodViolation \<Rightarrow>
                    [\<lparr>v_type = Error, v_code = ''REST_PERIOD_VIOLATION'',
                      v_message = restPeriodViolation\<rparr>]
                | None \<Rightarrow> []);
          vs = v1 @ v2 @ v3 @ v4 @ v5 @ checkLaborLimits d staffId shift;
          sugg = (if list_ex (\<lambda>v. v_type v = Error) vs
                  then
                    let qualifiedStaff = findStaffWithSkill d (sd_skillId shift) (sd_locationId shift);
                        others = filter (\<lambda>s. fst s \<noteq> staffId) qualifiedStaff
                    in if length others > 0
                       then [Str ''Available alternatives: ''
                             # joinWith [Str '', ''] (map (\<lambda>s. [Str (snd s)]) (take 3 others))]
                       else []
                  else [])
      in \<lparr>valid = (length (filter (\<lambda>v. v_type v = Error) vs) = 0),
          violations = vs,
          suggestions = (if length sugg > 0 then Some sugg else None)\<rparr>)"

section \<open>Authentication (src/lib/auth.ts)\<close>

text \<open>
  The session is a parameter: \<open>None\<close> when nobody is signed in. \<^verbatim>\<open>requireAuth\<close> and
  \<^verbatim>\<open>requireRole\<close> throw; the thrown message is carried by \<open>Inl\<close>.
\<close>

definition requireAuth :: "user option \<Rightarrow> string + user" where
  "requireAuth actor = (case actor of None \<Rightarrow> Inl ''Unauthorized'' | Some u \<Rightarrow> Inr u)"

definition requireRole :: "role list \<Rightarrow> user option \<Rightarrow> string + user" where
  "requireRole roles actor =
     (case requireAuth actor of
        Inl e \<Rightarrow> Inl e
      | Inr u \<Rightarrow> if user_role u \<in> set roles then Inr u else Inl ''Forbidden'')"

section \<open>Results of the server actions\<close>

text \<open>
  Every action returns an object with \<^verbatim>\<open>success\<close> and optional \<^verbatim>\<open>error\<close>,
  \<^verbatim>\<open>overridable\<close> and \<^verbatim>\<open>warnings\<close>; an absent field is \<open>None\<close>. An action of the
  model returns this object and the database after it. The advisory locks and the
  transactions of the source order concurrent callers and are not part of a model of one
  call; a throw inside a transaction leaves the database as it was. The audit log and the
  notifications write to tables that no modelled query reads and are left out.
\<close>

record actionResult =
  success :: bool
  error :: "message option"
  overridable :: "bool option"
  warnings :: "message list option"

definition failure :: "string \<Rightarrow> actionResult" where
  "failure msg = \<lparr>success = False, error = Some [Str msg], overridable = None, warnings = None\<rparr>"

definition ok :: actionResult where
  "ok = \<lparr>success = True, error = None, overridable = None, warnings = None\<rparr>"

text \<open>
  A query with \<^verbatim>\<open>.limit(1)\<close> whose result is destructured as \<^verbatim>\<open>const [row] = ...\<close>
  is \<open>find\<close>: the first row that satisfies the condition, or \<open>None\<close> for \<^verbatim>\<open>undefined\<close>.
\<close>

section \<open>Assigning a worker (src/app/schedules/[locationId]/assignment-actions.ts)\<close>



definition toShiftData :: "shift \<Rightarrow> shiftData" where
  "toShiftData shiftRow =
     \<lparr>sd_id = shift_id shiftRow, sd_locationId = shift_locationId shiftRow,
      sd_date = shift_date shiftRow, sd_startTime = shift_startTime shiftRow,
      sd_endTime = shift_endTime shiftRow, sd_skillId = shift_skillId shiftRow\<rparr>"





section \<open>Shift actions (src/app/schedules/[locationId]/actions.ts)\<close>

text \<open>
  The parsed form of \<^verbatim>\<open>createShift\<close> and \<^verbatim>\<open>updateShift\<close>. The schema checks that the
  times match \<^verbatim>\<open>^\d{2}:\d{2}$\<close>, that the head count is an integer from 1 to 20 and,
  for an update, that the version is an integer of at least 1; its checks of the shape of
  identifiers and of the date concern representations that the model does not have.
  The \<^verbatim>\<open>time\<close> columns give a stored time back with its seconds, \<^verbatim>\<open>HH:MM:SS\<close>.
  The id of an inserted row (\<^verbatim>\<open>defaultRandom\<close>) is the parameter \<open>newId\<close>, assumed fresh.
\<close>

record shiftForm =
  f_locationId :: ident
  f_date :: date
  f_startTime :: string
  f_endTime :: string
  f_skillId :: ident
  f_headcount :: int

record updateShiftForm = shiftForm +
  f_shiftId :: ident
  f_version :: int

definition timePattern :: "string \<Rightarrow> bool" where
  "timePattern s =
     (case s of
        [h1, h2, c, m1, m2] \<Rightarrow> isDigit h1 \<and> isDigit h2 \<and> c = CHR '':'' \<and> isDigit m1 \<and> isDigit m2
      | _ \<Rightarrow> False)"

definition createShiftSchema :: "'a shiftForm_scheme \<Rightarrow> bool" where
  "createShiftSchema f =
     (timePattern (f_startTime f) \<and> timePattern (f_endTime f) \<and>
      1 \<le> f_headcount f \<and> f_headcount f \<le> 20)"

definition updateShiftSchema :: "updateShiftForm \<Rightarrow> bool" where
  "updateShiftSchema f = (createShiftSchema f \<and> 1 \<le> f_version f)"

text \<open>
  The column \<^verbatim>\<open>version\<close> is a 32-bit integer. A statement that would write a greater
  number is refused by the database, the action catches the error and reports its generic
  failure, and nothing is written.
\<close>

definition int4Max :: int where
  "int4Max = 2147483647"

definition storedTime :: "string \<Rightarrow> string" where
  "storedTime t = t @ '':00''"


text \<open>
  The statement \<^verbatim>\<open>UPDATE swap_requests SET ... WHERE id IN (...)\<close> of the cascade, and the
  cascade itself: the pending requests on the assignments of the edited shift.
\<close>

definition cancelRequests :: "ident list \<Rightarrow> instant \<Rightarrow> swapRequest list \<Rightarrow> swapRequest list" where
  "cancelRequests ids now rs =
     map (\<lambda>r. if req_id r \<in> set ids
               then r\<lparr>req_status := CANCELLED,
                      req_reviewNotes := Some ''Automatically cancelled because the shift was modified'',
                      req_updatedAt := now\<rparr>
               else r) rs"

definition cascadeCancel :: "db \<Rightarrow> instant \<Rightarrow> ident \<Rightarrow> db" where
  "cascadeCancel d now shiftId =
     (let assignments = filter (\<lambda>a. asg_shiftId a = shiftId) (shiftAssignments d)
      in if length assignments > 0
         then
           let assignmentIds = map asg_id assignments;
               affectedSwaps = filter (\<lambda>r. req_status r = PENDING \<and>
                                            req_shiftAssignmentId r \<in> set assignmentIds)
                                      (swapRequests d)
           in if length affectedSwaps > 0
              then d\<lparr>swapRequests := cancelRequests (map req_id affectedSwaps) now (swapRequests d)\<rparr>
              else d
         else d)"

definition updateShift ::
  "db \<Rightarrow> user option \<Rightarrow> instant \<Rightarrow> updateShiftForm \<Rightarrow> actionResult \<times> db" where
  "updateShift d actor now f =
     (case requireRole [MANAGER, ADMIN] actor of
        Inl e \<Rightarrow> (failure ''Failed to update shift'', d)
      | Inr u \<Rightarrow>
          if \<not> updateShiftSchema f
          then (failure ''Invalid shift data'', d)
          else if f_version f + 1 > int4Max
          then (failure ''Failed to update shift'', d)
          else
            let hit = (\<lambda>s. shift_id s = f_shiftId f \<and> shift_version s = f_version f);
                result = filter hit (shifts d)
            in if length result = 0
               then (case find (\<lambda>s. shift_id s = f_shiftId f) (shifts d) of
                       None \<Rightarrow> (failure ''Shift not found'', d)
                     | Some exists \<Rightarrow>
                         (failure ''Shift was modified by another user. Please refresh and try again.'', d))
               else
                 let d1 = d\<lparr>shifts := map (\<lambda>s. if hit s
                                   then s\<lparr>shift_date := f_date f,
                                          shift_startTime := storedTime (f_startTime f),
                                          shift_endTime := storedTime (f_endTime f),
                                          shift_skillId := f_skillId f,
                                          shift_headcount := f_headcount f,
                                          shift_version := f_version f + 1,
                                          shift_updatedAt := now\<rparr>
                                   else s) (shifts d)\<rparr>
                 in (ok, cascadeCancel d1 now (f_shiftId f)))"

text \<open>
  Deleting a shift deletes its assignments, and deleting an assignment deletes the swap
  requests on it (\<^verbatim>\<open>onDelete: 'cascade'\<close> in the schema).
\<close>

definition deleteAssignments :: "(shiftAssignment \<Rightarrow> bool) \<Rightarrow> db \<Rightarrow> db" where
  "deleteAssignments P d =
     (let gone = map asg_id (filter P (shiftAssignments d))
      in d\<lparr>shiftAssignments := filter (\<lambda>a. \<not> P a) (shiftAssignments d),
           swapRequests := filter (\<lambda>r. req_shiftAssignmentId r \<notin> set gone) (swapRequests d)\<rparr>)"

definition hoursUntil :: "env \<Rightarrow> instant \<Rightarrow> shift \<Rightarrow> rat" where
  "hoursUntil ev now s =
     of_int (env_instant ev (shift_date s) (shift_startTime s) - now) / (1000 * 60 * 60)"




section \<open>Swap and drop requests of a worker (my-shifts swap actions, src/unnamed/part\_008)\<close>

definition capMessage :: string where
  "capMessage = ''You already have 3 pending swap/drop requests. Please wait for approval or cancel existing requests.''"

definition pendingCount :: "db \<Rightarrow> ident \<Rightarrow> nat" where
  "pendingCount d userId =
     length (filter (\<lambda>r. req_requestedBy r = userId \<and> req_status r = PENDING) (swapRequests d))"

definition createSwapRequest ::
  "db \<Rightarrow> user option \<Rightarrow> instant \<Rightarrow> ident \<Rightarrow> ident \<Rightarrow> ident \<Rightarrow> actionResult \<times> db" where
  "createSwapRequest d actor now newId assignmentId targetStaffId =
     (case requireRole [STAFF] actor of
        Inl e \<Rightarrow> (failure ''Failed to create swap request'', d)
      | Inr u \<Rightarrow>
          if pendingCount d (user_id u) \<ge> 3
          then (failure capMessage, d)
          else
            (case find (\<lambda>a. asg_id a = assignmentId) (shiftAssignments d) of
               None \<Rightarrow> (failure ''Assignment not found'', d)
             | Some assignment \<Rightarrow>
                 if asg_staffId assignment \<noteq> user_id u
                 then (failure ''You can only request swaps for your own shifts'', d)
                 else
                   (case find (\<lambda>r. req_shiftAssignmentId r = assignmentId \<and> req_status r = PENDING)
                              (swapRequests d) of
                      Some existingRequest \<Rightarrow>
                        (failure ''There is already a pending swap request for this shift'', d)
                    | None \<Rightarrow>
                        (case find (\<lambda>s. shift_id s = asg_shiftId assignment) (shifts d) of
                           None \<Rightarrow> (failure ''Shift not found'', d)
                         | Some shift \<Rightarrow>
                             (ok, d\<lparr>swapRequests := swapRequests d @
                                    [\<lparr>req_id = newId, req_shiftAssignmentId = assignmentId,
                                      req_requestedBy = user_id u, req_type = SWAP,
                                      req_targetStaffId = Some targetStaffId, req_status = PENDING,
                                      req_reviewedBy = None, req_reviewedAt = None,
                                      req_reviewNotes = None, req_updatedAt = now\<rparr>]\<rparr>)))))"

definition createDropRequest ::
  "env \<Rightarrow> db \<Rightarrow> user option \<Rightarrow> instant \<Rightarrow> ident \<Rightarrow> ident \<Rightarrow> actionResult \<times> db" where
  "createDropRequest ev d actor now newId assignmentId =
     (case requireRole [STAFF] actor of
        Inl e \<Rightarrow> (failure ''Failed to create drop request'', d)
      | Inr u \<Rightarrow>
          if pendingCount d (user_id u) \<ge> 3
          then (failure capMessage, d)
          else
            (case find (\<lambda>a. asg_id a = assignmentId) (shiftAssignments d) of
               None \<Rightarrow> (failure ''Assignment not found'', d)
             | Some assignment \<Rightarrow>
                 if asg_staffId assignment \<noteq> user_id u
                 then (failure ''You can only request drops for your own shifts'', d)
                 else
                   (case find (\<lambda>r. req_shiftAssignmentId r = assignmentId \<and> req_status r = PENDING)
                              (swapRequests d) of
                      Some existingRequest \<Rightarrow>
                        (failure ''There is already a pending request for this shift'', d)
                    | None \<Rightarrow>
                        (case find (\<lambda>s. shift_id s = asg_shiftId assignment) (shifts d) of
                           None \<Rightarrow> (failure ''Shift not found'', d)
                         | Some shift \<Rightarrow>
                             if hoursUntil ev now shift \<le> 24
                             then (failure ''Cannot drop a shift within 24 hours of its start time'', d)
                             else
                               (ok, d\<lparr>swapRequests := swapRequests d @
                                      [\<lparr>req_id = newId, req_shiftAssignmentId = assignmentId,
                                        req_requestedBy = user_id u, req_type = DROP,
                                        req_targetStaffId = None, req_status = PENDING,
                                        req_reviewedBy = None, req_reviewedAt = None,
                                        req_reviewNotes = None, req_updatedAt = now\<rparr>]\<rparr>)))))"

text \<open>
  The statement \<^verbatim>\<open>UPDATE swap_requests SET ... WHERE id = requestId\<close>, with the change of
  the row as a function.
\<close>

definition updateRequest ::
  "ident \<Rightarrow> (swapRequest \<Rightarrow> swapRequest) \<Rightarrow> db \<Rightarrow> db" where
  "updateRequest requestId change d =
     d\<lparr>swapRequests := map (\<lambda>r. if req_id r = requestId then change r else r) (swapRequests d)\<rparr>"

text \<open>\<^verbatim>\<open>cancelSwapRequest\<close> of the my-shifts swap actions.\<close>

definition cancelSwapRequest_myShifts ::
  "db \<Rightarrow> user option \<Rightarrow> instant \<Rightarrow> ident \<Rightarrow> actionResult \<times> db" where
  "cancelSwapRequest_myShifts d actor now requestId =
     (case requireRole [STAFF] actor of
        Inl e \<Rightarrow> (failure ''Failed to cancel request'', d)
      | Inr u \<Rightarrow>
          (case find (\<lambda>r. req_id r = requestId) (swapRequests d) of
             None \<Rightarrow> (failure ''Request not found'', d)
           | Some request \<Rightarrow>
               if req_requestedBy request \<noteq> user_id u
               then (failure ''You can only cancel your own requests'', d)
               else if req_status request \<noteq> PENDING
               then (failure ''Only pending requests can be cancelled'', d)
               else (ok, updateRequest requestId
                           (\<lambda>r. r\<lparr>req_status := CANCELLED, req_updatedAt := now\<rparr>) d)))"

section \<open>Review of swap and drop requests (src/app/swap-requests/actions.ts)\<close>

definition cancelSwapRequest ::
  "db \<Rightarrow> user option \<Rightarrow> instant \<Rightarrow> ident \<Rightarrow> actionResult \<times> db" where
  "cancelSwapRequest d actor now requestId =
     (case requireAuth actor of
        Inl e \<Rightarrow> (failure ''Failed to cancel swap request'', d)
      | Inr u \<Rightarrow>
          (case find (\<lambda>r. req_id r = requestId) (swapRequests d) of
             None \<Rightarrow> (failure ''Swap request not found'', d)
           | Some request \<Rightarrow>
               if req_requestedBy request \<noteq> user_id u
               then (failure ''You can only cancel your own requests'', d)
               else if req_status request \<noteq> PENDING \<and> req_status request \<noteq> ACCEPTED_BY_TARGET
               then (failure ''This request has already been processed'', d)
               else (ok, updateRequest requestId
                           (\<lambda>r. r\<lparr>req_status := CANCELLED, req_updatedAt := now\<rparr>) d)))"

text \<open>
  In \<^verbatim>\<open>approveSwapRequest\<close> the optional \<^verbatim>\<open>notes\<close> are written only when given: an
  \<^verbatim>\<open>undefined\<close> field in \<^verbatim>\<open>.set\<close> leaves the column as it is.
\<close>

definition approveSwapRequest ::
  "db \<Rightarrow> user option \<Rightarrow> instant \<Rightarrow> ident \<Rightarrow> string option \<Rightarrow> actionResult \<times> db" where
  "approveSwapRequest d actor now requestId notes =
     (case requireRole [MANAGER, ADMIN] actor of
        Inl e \<Rightarrow> (failure ''Failed to approve swap request'', d)
      | Inr u \<Rightarrow>
          (case find (\<lambda>r. req_id r = requestId) (swapRequests d) of
             None \<Rightarrow> (failure ''Swap request not found'', d)
           | Some request \<Rightarrow>
               if req_type request = SWAP \<and> req_status request \<noteq> ACCEPTED_BY_TARGET
               then (failure ''Target staff has not yet accepted this swap request'', d)
               else if req_type request = DROP \<and> req_status request \<noteq> PENDING
               then (failure ''This request has already been processed by another manager'', d)
               else
                 (case find (\<lambda>a. asg_id a = req_shiftAssignmentId request) (shiftAssignments d) of
                    None \<Rightarrow> (failure ''Shift assignment not found'', d)
                  | Some assignment \<Rightarrow>
                      let d1 = updateRequest requestId
                                 (\<lambda>r. r\<lparr>req_status := APPROVED, req_reviewedBy := Some (user_id u),
                                        req_reviewedAt := Some now,
                                        req_reviewNotes := (case notes of None \<Rightarrow> req_reviewNotes r
                                                            | Some n \<Rightarrow> Some n),
                                        req_updatedAt := now\<rparr>) d
                      in case (req_type request, req_targetStaffId request) of
                           (SWAP, Some target) \<Rightarrow>
                             if target \<noteq> []
                             then (ok, d1\<lparr>shiftAssignments :=
                                          map (\<lambda>a. if asg_id a = asg_id assignment
                                                    then a\<lparr>asg_staffId := target,
                                                           asg_assignedBy := user_id u,
                                                           asg_assignedAt := now\<rparr>
                                                    else a) (shiftAssignments d1)\<rparr>)
                             else (ok, d1)
                         | (SWAP, None) \<Rightarrow> (ok, d1)
                         | (DROP, _) \<Rightarrow>
                             (ok, deleteAssignments (\<lambda>a. asg_id a = asg_id assignment) d1))))"

section \<open>Self-assignment of a worker (src/app/my-shifts/actions.ts)\<close>




section \<open>Notions used to state the properties\<close>

text \<open>
  A recurring rule contains a range of clock times when it starts no later and ends no
  earlier, in minutes since midnight.
\<close>

definition containsRange :: "availabilityRule \<Rightarrow> string \<Rightarrow> string \<Rightarrow> bool" where
  "containsRange r startTime endTime =
     (toMinutes (rule_startTime r) \<le> toMinutes startTime \<and>
      toMinutes endTime \<le> toMinutes (rule_endTime r))"

text \<open>Every clock time stored in the schedule is a clock string.\<close>

definition clockTimes :: "db \<Rightarrow> bool" where
  "clockTimes d =
     ((\<forall>r\<in>set (availabilityRules d). clockString (rule_startTime r) \<and> clockString (rule_endTime r)) \<and>
      (\<forall>s\<in>set (shifts d). clockString (shift_startTime s) \<and> clockString (shift_endTime s)))"

text \<open>
  The absolute start and end of a shift, as \<^verbatim>\<open>check10HourRest\<close> computes them from the
  local midnight of the shift's date, the hours from one instant to another, and the
  condition on the two directional gaps between an existing shift and a candidate.
\<close>

definition absStart :: "env \<Rightarrow> date \<Rightarrow> string \<Rightarrow> string \<Rightarrow> instant" where
  "absStart ev date startTime endTime =
     env_midnight ev date + fst (absoluteRange startTime endTime) * 60000"

definition absEnd :: "env \<Rightarrow> date \<Rightarrow> string \<Rightarrow> string \<Rightarrow> instant" where
  "absEnd ev date startTime endTime =
     env_midnight ev date + snd (absoluteRange startTime endTime) * 60000"

definition hoursFromTo :: "instant \<Rightarrow> instant \<Rightarrow> rat" where
  "hoursFromTo a b = of_int (b - a) / 3600000"

definition restGapViolated :: "env \<Rightarrow> shift \<Rightarrow> shiftData \<Rightarrow> bool" where
  "restGapViolated ev existing newShift =
     (let afterExisting =
            hoursFromTo (absEnd ev (shift_date existing) (shift_startTime existing) (shift_endTime existing))
                        (absStart ev (sd_date newShift) (sd_startTime newShift) (sd_endTime newShift));
          beforeExisting =
            hoursFromTo (absEnd ev (sd_date newShift) (sd_startTime newShift) (sd_endTime newShift))
                        (absStart ev (shift_date existing) (shift_startTime existing) (shift_endTime existing))
      in (0 < afterExisting \<and> afterExisting < 10) \<or> (0 < beforeExisting \<and> beforeExisting < 10))"

text \<open>
  The requests of a worker that are still open in the words of the specification: in status
  \<open>PENDING\<close> or \<open>ACCEPTED_BY_TARGET\<close>.
\<close>

definition openRequestCount :: "db \<Rightarrow> ident \<Rightarrow> nat" where
  "openRequestCount d userId =
     length (filter (\<lambda>r. req_requestedBy r = userId \<and>
                          (req_status r = PENDING \<or> req_status r = ACCEPTED_BY_TARGET))
                    (swapRequests d))"

text \<open>The primary key of \<^verbatim>\<open>swap_requests\<close>: no two rows share an id.\<close>

definition uniqueRequestIds :: "db \<Rightarrow> bool" where
  "uniqueRequestIds d = distinct (map req_id (swapRequests d))"

text \<open>A request is on a shift when the assignment it references is an assignment to that shift.\<close>

definition onShift :: "db \<Rightarrow> ident \<Rightarrow> swapRequest \<Rightarrow> bool" where
  "onShift d shiftId r =
     (\<exists>a\<in>set (shiftAssignments d). asg_id a = req_shiftAssignmentId r \<and> asg_shiftId a = shiftId)"

text \<open>What the cascade of a shift edit writes to a request.\<close>

definition cancelledByEdit :: "instant \<Rightarrow> swapRequest \<Rightarrow> swapRequest" where
  "cancelledByEdit now r =
     r\<lparr>req_status := CANCELLED,
       req_reviewNotes := Some ''Automatically cancelled because the shift was modified'',
       req_updatedAt := now\<rparr>"






text \<open>
  Two shifts overlap by the test of \<^verbatim>\<open>checkShiftOverlap\<close>, and a worker is double-booked
  when two different assignments of the worker are to overlapping shifts.
\<close>

definition shiftsOverlap :: "env \<Rightarrow> shift \<Rightarrow> shift \<Rightarrow> bool" where
  "shiftsOverlap ev s1 s2 =
     (absStart ev (shift_date s1) (shift_startTime s1) (shift_endTime s1)
        < absEnd ev (shift_date s2) (shift_startTime s2) (shift_endTime s2) \<and>
      absStart ev (shift_date s2) (shift_startTime s2) (shift_endTime s2)
        < absEnd ev (shift_date s1) (shift_startTime s1) (shift_endTime s1))"

definition doubleBooked :: "env \<Rightarrow> db \<Rightarrow> ident \<Rightarrow> bool" where
  "doubleBooked ev d staffId =
     (\<exists>a1\<in>set (shiftAssignments d). \<exists>a2\<in>set (shiftAssignments d).
        \<exists>s1\<in>set (shifts d). \<exists>s2\<in>set (shifts d).
          asg_staffId a1 = staffId \<and> asg_staffId a2 = staffId \<and> asg_id a1 \<noteq> asg_id a2 \<and>
          asg_shiftId a1 = shift_id s1 \<and> asg_shiftId a2 = shift_id s2 \<and>
          shiftsOverlap ev s1 s2)"

text \<open>What an approval writes to a request.\<close>

definition approved :: "user \<Rightarrow> instant \<Rightarrow> string option \<Rightarrow> swapRequest \<Rightarrow> swapRequest" where
  "approved u now notes r =
     r\<lparr>req_status := APPROVED, req_reviewedBy := Some (user_id u), req_reviewedAt := Some now,
       req_reviewNotes := (case notes of None \<Rightarrow> req_reviewNotes r | Some n \<Rightarrow> Some n),
       req_updatedAt := now\<rparr>"

section \<open>Example data\<close>

text \<open>
  A server whose time zone has no offset and no daylight saving, and a small schedule: the
  worker \<open>w1\<close> holds the skill and the certification of every shift, is available on
  Sundays from 09:00 to 17:00, and works a one-hour shift on each of the days 4 to 9; the
  shift \<open>s10\<close> on day 10, a Sunday, is not assigned yet.
\<close>

definition env0 :: env where
  "env0 = \<lparr>env_midnight = (\<lambda>d. d * 86400000),
           env_instant = (\<lambda>d t. d * 86400000 + toMinutes t * 60000),
           env_isoDay = (\<lambda>d. d)\<rparr>"

definition mkShift :: "ident \<Rightarrow> date \<Rightarrow> string \<Rightarrow> string \<Rightarrow> shift" where
  "mkShift i dt st en =
     \<lparr>shift_id = i, shift_locationId = ''loc1'', shift_date = dt,
      shift_startTime = st, shift_endTime = en, shift_skillId = ''sk1'', shift_headcount = 1,
      shift_isPublished = True, shift_publishedAt = Some 0, shift_version = 1,
      shift_createdBy = ''m1'', shift_updatedAt = 0\<rparr>"

definition mkAsg :: "ident \<Rightarrow> ident \<Rightarrow> ident \<Rightarrow> shiftAssignment" where
  "mkAsg i sh w =
     \<lparr>asg_id = i, asg_shiftId = sh, asg_staffId = w, asg_assignedBy = ''m1'', asg_assignedAt = 0\<rparr>"

definition manager1 :: user where
  "manager1 = \<lparr>user_id = ''m1'', user_name = ''Sarah'', user_role = MANAGER\<rparr>"


text \<open>
  Schedules for the availability checks. In each, the worker \<open>w1\<close> holds the skill and
  the certification of the candidate shift. Day 4 (1970-01-05) is a Monday and day 2
  (1970-01-03) a Saturday.
\<close>

definition mkDb :: "availabilityRule list \<Rightarrow> availabilityException list \<Rightarrow> shift list \<Rightarrow>
                    shiftAssignment list \<Rightarrow> db" where
  "mkDb rules exceptions shs asgs =
     \<lparr>users = [\<lparr>user_id = ''w1'', user_name = ''Alex'', user_role = STAFF\<rparr>,
               \<lparr>user_id = ''w2'', user_name = ''Jordan'', user_role = STAFF\<rparr>],
      staffSkills = [\<lparr>sk_staffId = ''w1'', sk_skillId = ''sk1''\<rparr>],
      staffLocationCerts = [\<lparr>cert_staffId = ''w1'', cert_locationId = ''loc1''\<rparr>],
      availabilityRules = rules,
      availabilityExceptions = exceptions,
      shifts = shs,
      shiftAssignments = asgs,
      swapRequests = []\<rparr>"

definition mkRule :: "dayOfWeek \<Rightarrow> string \<Rightarrow> string \<Rightarrow> availabilityRule" where
  "mkRule day st en =
     \<lparr>rule_staffId = ''w1'', rule_dayOfWeek = day, rule_startTime = st, rule_endTime = en\<rparr>"

definition candidate :: "date \<Rightarrow> string \<Rightarrow> string \<Rightarrow> shiftData" where
  "candidate dt st en = toShiftData (mkShift ''c1'' dt st en)"

definition dbMonday :: db where
  "dbMonday = mkDb [mkRule MON ''09:00'' ''12:00'', mkRule MON ''13:00'' ''17:00''] [] [] []"

definition dbMondayAdjacent :: db where
  "dbMondayAdjacent = mkDb [mkRule MON ''09:00'' ''12:00'', mkRule MON ''12:00'' ''17:00''] [] [] []"

definition dbSaturday :: db where
  "dbSaturday =
     mkDb [mkRule MON ''17:00'' ''22:00'']
          [\<lparr>exc_staffId = ''w1'', exc_date = 2, exc_isAvailable = True,
            exc_startTime = Some ''10:00'', exc_endTime = Some ''18:00'',
            exc_reason = Some ''Available for extra shift''\<rparr>] [] []"


text \<open>
  The worker \<open>w1\<close> with four assignments on the days 10 to 13 and a given list of swap and
  drop requests: three swaps that the target has accepted, three pending requests, or one
  approved and one denied request.
\<close>

definition staff1 :: user where
  "staff1 = \<lparr>user_id = ''w1'', user_name = ''Alex'', user_role = STAFF\<rparr>"

definition mkReq :: "ident \<Rightarrow> ident \<Rightarrow> swapType \<Rightarrow> swapStatus \<Rightarrow> swapRequest" where
  "mkReq i a ty st =
     \<lparr>req_id = i, req_shiftAssignmentId = a, req_requestedBy = ''w1'', req_type = ty,
      req_targetStaffId = (if ty = SWAP then Some ''w2'' else None), req_status = st,
      req_reviewedBy = None, req_reviewedAt = None, req_reviewNotes = None, req_updatedAt = 0\<rparr>"

definition dbFour :: "swapRequest list \<Rightarrow> db" where
  "dbFour rs =
     (mkDb [] []
        [mkShift ''s1'' 10 ''09:00:00'' ''17:00:00'', mkShift ''s2'' 11 ''09:00:00'' ''17:00:00'',
         mkShift ''s3'' 12 ''09:00:00'' ''17:00:00'', mkShift ''s4'' 13 ''09:00:00'' ''17:00:00'']
        [mkAsg ''a1'' ''s1'' ''w1'', mkAsg ''a2'' ''s2'' ''w1'', mkAsg ''a3'' ''s3'' ''w1'',
         mkAsg ''a4'' ''s4'' ''w1''])\<lparr>swapRequests := rs\<rparr>"

definition dbAccepted :: db where
  "dbAccepted = dbFour [mkReq ''r1'' ''a1'' SWAP ACCEPTED_BY_TARGET,
                        mkReq ''r2'' ''a2'' SWAP ACCEPTED_BY_TARGET,
                        mkReq ''r3'' ''a3'' SWAP ACCEPTED_BY_TARGET]"

definition dbPending :: db where
  "dbPending = dbFour [mkReq ''r1'' ''a1'' SWAP PENDING, mkReq ''r2'' ''a2'' DROP PENDING,
                       mkReq ''r3'' ''a3'' SWAP PENDING]"

definition reqApproved :: swapRequest where
  "reqApproved = (mkReq ''r1'' ''a1'' SWAP APPROVED)
                   \<lparr>req_reviewedBy := Some ''m1'', req_reviewedAt := Some 7,
                    req_reviewNotes := Some ''fine''\<rparr>"

definition reqDenied :: swapRequest where
  "reqDenied = (mkReq ''r2'' ''a2'' DROP DENIED)
                 \<lparr>req_reviewedBy := Some ''m1'', req_reviewedAt := Some 8\<rparr>"

definition dbProcessed :: db where
  "dbProcessed = dbFour [reqApproved, reqDenied]"

text \<open>
  The shift \<open>s1\<close> with two assignments and the shift \<open>s2\<close> with one. On the assignments
  of \<open>s1\<close> there are two pending requests, a swap accepted by its target and an approved
  drop; on the assignment of \<open>s2\<close> there is one pending request. The form edits \<open>s1\<close> at
  its stored version.
\<close>

definition dbEdit :: db where
  "dbEdit =
     (mkDb [] []
        [(mkShift ''s1'' 10 ''09:00:00'' ''17:00:00'')\<lparr>shift_headcount := 2\<rparr>,
         mkShift ''s2'' 11 ''09:00:00'' ''17:00:00'']
        [mkAsg ''a1'' ''s1'' ''w1'', mkAsg ''a2'' ''s1'' ''w2'', mkAsg ''a3'' ''s2'' ''w1''])
     \<lparr>swapRequests :=
        [mkReq ''r1'' ''a1'' SWAP PENDING,
         (mkReq ''r2'' ''a2'' DROP PENDING)\<lparr>req_requestedBy := ''w2''\<rparr>,
         mkReq ''r3'' ''a1'' SWAP ACCEPTED_BY_TARGET,
         (mkReq ''r4'' ''a2'' DROP APPROVED)\<lparr>req_requestedBy := ''w2'', req_reviewedBy := Some ''m1'',
                                             req_reviewedAt := Some 7\<rparr>,
         mkReq ''r5'' ''a3'' DROP PENDING]\<rparr>"

definition formEdit :: updateShiftForm where
  "formEdit = \<lparr>f_locationId = ''loc1'', f_date = 10, f_startTime = ''10:00'',
               f_endTime = ''18:00'', f_skillId = ''sk1'', f_headcount = 2,
               f_shiftId = ''s1'', f_version = 1\<rparr>"



text \<open>
  Two shifts on day 10 that overlap from 12:00 to 17:00. In \<open>dbSwap\<close> the worker \<open>w1\<close>
  holds the first and \<open>w2\<close> the second, and the target \<open>w2\<close> has accepted the swap of
  the first. In \<open>dbPickUp\<close> the first is open and \<open>w2\<close>, who has no skill, no
  certification and no availability rule, holds the second.
\<close>

definition dbSwap :: db where
  "dbSwap =
     (mkDb [] []
        [mkShift ''sA'' 10 ''09:00:00'' ''17:00:00'', mkShift ''sB'' 10 ''12:00:00'' ''20:00:00'']
        [mkAsg ''a1'' ''sA'' ''w1'', mkAsg ''a2'' ''sB'' ''w2''])
     \<lparr>swapRequests := [mkReq ''r1'' ''a1'' SWAP ACCEPTED_BY_TARGET]\<rparr>"



section \<open>Verified properties\<close>

subsection \<open>The override gate of assignStaffToShift\<close>







subsection \<open>Availability\<close>

lemma checkSingleDayAvailability_iff:
  "available (checkSingleDayAvailability d staffId date startTime endTime) \<longleftrightarrow>
     (\<exists>r\<in>set (availabilityRules d).
        rule_staffId r = staffId \<and> rule_dayOfWeek r = snd (getDayInfo date) \<and>
        containsRange r startTime endTime)"
proof -
  obtain dayName dayEnum where di: "getDayInfo date = (dayName, dayEnum)"
    by (cases "getDayInfo date")
  let ?rules = "filter (\<lambda>r. rule_staffId r = staffId \<and> rule_dayOfWeek r = dayEnum)
                       (availabilityRules d)"
  have "available (checkSingleDayAvailability d staffId date startTime endTime) \<longleftrightarrow>
        (\<exists>r\<in>set ?rules. containsRange r startTime endTime)"
    by (cases "?rules = []")
       (simp_all add: checkSingleDayAvailability_def di containsRange_def Let_def list_ex_iff)
  then show ?thesis
    using di by auto
qed

text \<open>
  C3. For a shift that does not cross midnight, on a date for which the worker has no
  availability exception, the availability check passes if and only if one recurring rule of
  the worker for that day of the week contains the whole range from start to end. Several
  rules that only together cover the range do not pass.
\<close>

theorem single_rule_containment:
  assumes times: "clockTimes d" "clockString startTime" "clockString endTime"
    and noexc: "\<forall>e\<in>set (availabilityExceptions d). \<not> (exc_staffId e = staffId \<and> exc_date e = date)"
    and day: "\<not> isOvernightShift startTime endTime"
  shows "available (checkAvailability d staffId date startTime endTime) \<longleftrightarrow>
     (\<exists>r\<in>set (availabilityRules d).
        rule_staffId r = staffId \<and> rule_dayOfWeek r = snd (getDayInfo date) \<and>
        containsRange r startTime endTime)"
proof -
  have "filter (\<lambda>e. exc_staffId e = staffId \<and> exc_date e = date) (availabilityExceptions d) = []"
    using noexc by (simp add: filter_empty_conv)
  then have "checkAvailability d staffId date startTime endTime =
             checkSingleDayAvailability d staffId date startTime endTime"
    using day by (simp add: checkAvailability_def)
  then show ?thesis
    by (simp add: checkSingleDayAvailability_iff)
qed

text \<open>
  The worker with the Monday rules 09:00 to 12:00 and 13:00 to 17:00 is not available for a
  Monday shift from 10:00 to 14:00, and the engine reports \<open>NOT_AVAILABLE\<close> as its only
  violation; nor is the worker available when the second rule starts at 12:00, so that the
  two rules together cover the shift. The shift from 13:00 to 17:00 passes.
\<close>

theorem single_rule_containment_witness:
  "\<not> available (checkAvailability dbMonday ''w1'' 4 ''10:00'' ''14:00'') \<and>
   map v_code (violations (validateAssignment env0 dbMonday ''w1'' (candidate 4 ''10:00'' ''14:00'')))
     = [''NOT_AVAILABLE''] \<and>
   \<not> available (checkAvailability dbMondayAdjacent ''w1'' 4 ''10:00'' ''14:00'') \<and>
   available (checkAvailability dbMonday ''w1'' 4 ''13:00'' ''17:00'')"
proof -
  have d1: "clockTimes dbMonday" by code_simp
  have d2: "clockTimes dbMondayAdjacent" by code_simp
  have c: "clockString ''10:00''" "clockString ''14:00''" "clockString ''13:00''" "clockString ''17:00''"
    by code_simp+
  have e1: "\<forall>e\<in>set (availabilityExceptions dbMonday). \<not> (exc_staffId e = ''w1'' \<and> exc_date e = 4)"
    by code_simp
  have e2: "\<forall>e\<in>set (availabilityExceptions dbMondayAdjacent). \<not> (exc_staffId e = ''w1'' \<and> exc_date e = 4)"
    by code_simp
  have n1: "\<not> isOvernightShift ''10:00'' ''14:00''" by code_simp
  have n2: "\<not> isOvernightShift ''13:00'' ''17:00''" by code_simp
  have r1: "\<not> (\<exists>r\<in>set (availabilityRules dbMonday).
        rule_staffId r = ''w1'' \<and> rule_dayOfWeek r = snd (getDayInfo 4) \<and>
        containsRange r ''10:00'' ''14:00'')" by code_simp
  have r2: "\<not> (\<exists>r\<in>set (availabilityRules dbMondayAdjacent).
        rule_staffId r = ''w1'' \<and> rule_dayOfWeek r = snd (getDayInfo 4) \<and>
        containsRange r ''10:00'' ''14:00'')" by code_simp
  have r3: "\<exists>r\<in>set (availabilityRules dbMonday).
        rule_staffId r = ''w1'' \<and> rule_dayOfWeek r = snd (getDayInfo 4) \<and>
        containsRange r ''13:00'' ''17:00''" by code_simp
  have v: "map v_code (violations (validateAssignment env0 dbMonday ''w1''
             (candidate 4 ''10:00'' ''14:00''))) = [''NOT_AVAILABLE'']"
    by code_simp
  show ?thesis
    using single_rule_containment [OF d1 c(1) c(2) e1 n1]
          single_rule_containment [OF d2 c(1) c(2) e2 n1]
          single_rule_containment [OF d1 c(3) c(4) e1 n2] r1 r2 r3 v
    by blast
qed

text \<open>
  Exceptions that say available never change the outcome of \<^verbatim>\<open>checkAvailability\<close>:
  removing them from the table gives the same result.
\<close>

lemma find_filter_filter:
  "find Q (filter P (filter Q xs)) = find Q (filter P xs)"
  by (induction xs) auto

lemma checkSingleDayAvailability_exceptions:
  "checkSingleDayAvailability (d\<lparr>availabilityExceptions := xs\<rparr>) staffId date startTime endTime =
   checkSingleDayAvailability d staffId date startTime endTime"
  by (simp add: checkSingleDayAvailability_def)

lemma available_exceptions_ignored:
  "checkAvailability (d\<lparr>availabilityExceptions :=
                         filter (\<lambda>e. \<not> exc_isAvailable e) (availabilityExceptions d)\<rparr>)
                     staffId date startTime endTime =
   checkAvailability d staffId date startTime endTime"
proof -
  let ?d = "d\<lparr>availabilityExceptions := filter (\<lambda>e. \<not> exc_isAvailable e) (availabilityExceptions d)\<rparr>"
  have f: "find (\<lambda>e. \<not> exc_isAvailable e) (filter P (availabilityExceptions ?d)) =
           find (\<lambda>e. \<not> exc_isAvailable e) (filter P (availabilityExceptions d))" for P
  proof -
    have sel: "availabilityExceptions ?d = filter (\<lambda>e. \<not> exc_isAvailable e) (availabilityExceptions d)"
      by simp
    show ?thesis
      unfolding sel by (rule find_filter_filter)
  qed
  have s: "checkSingleDayAvailability ?d staffId dt st en =
           checkSingleDayAvailability d staffId dt st en" for dt st en
    by (rule checkSingleDayAvailability_exceptions)
  show ?thesis
    unfolding checkAvailability_def Let_def f s ..
qed

text \<open>
  C4. The claim is that an exception with \<open>isAvailable = true\<close> whose window contains the
  shift makes the worker available. \<^verbatim>\<open>checkAvailability\<close> reads exceptions only to find one
  with \<open>isAvailable = false\<close>: the worker \<open>w1\<close>, with a Monday rule only and an exception
  for Saturday, day 2, that says available from 10:00 to 18:00, is reported
  \<open>NOT_AVAILABLE\<close> for the Saturday shift from 11:00 to 15:00.
\<close>

theorem available_exception_not_honoured:
  "violations (validateAssignment env0 dbSaturday ''w1'' (candidate 2 ''11:00'' ''15:00'')) =
     [\<lparr>v_type = Error, v_code = ''NOT_AVAILABLE'',
       v_message = [Str ''Staff has no availability set for '', Str ''Saturday'']\<rparr>]"
  by code_simp

subsection \<open>The rest period\<close>







text \<open>
  The same condition on whole milliseconds: each gap is a whole number of milliseconds, and
  it lies strictly between 0 and 10 hours exactly when that number lies strictly between 0
  and 36000000. The division by 3600000 is the only floating-point step of the source
  before the two comparisons.
\<close>

lemma hours_window:
  "(0 < hoursFromTo a b \<and> hoursFromTo a b < 10) \<longleftrightarrow> (0 < b - a \<and> b - a < 36000000)"
proof -
  define x where "x = b - a"
  have lt: "(of_int x :: rat) < 36000000 \<longleftrightarrow> x < 36000000"
    using of_int_less_iff [of x 36000000, where ?'a = rat] by simp
  have "(0 < (of_int x :: rat) / 3600000 \<and> (of_int x :: rat) / 3600000 < 10) \<longleftrightarrow>
        (0 < x \<and> x < 36000000)"
    using lt by simp
  then show ?thesis
    by (simp only: hoursFromTo_def x_def)
qed

lemma rest_gap_milliseconds:
  "restGapViolated ev existing newShift \<longleftrightarrow>
     (let afterExisting =
            absStart ev (sd_date newShift) (sd_startTime newShift) (sd_endTime newShift)
            - absEnd ev (shift_date existing) (shift_startTime existing) (shift_endTime existing);
          beforeExisting =
            absStart ev (shift_date existing) (shift_startTime existing) (shift_endTime existing)
            - absEnd ev (sd_date newShift) (sd_startTime newShift) (sd_endTime newShift)
      in (0 < afterExisting \<and> afterExisting < 36000000) \<or>
         (0 < beforeExisting \<and> beforeExisting < 36000000))"
  unfolding restGapViolated_def Let_def hours_window ..



subsection \<open>The cap on the requests of a worker\<close>

lemma pendingCount_le_open: "pendingCount d userId \<le> openRequestCount d userId"
proof -
  have "length (filter (\<lambda>r. req_requestedBy r = userId \<and> req_status r = PENDING) xs) \<le>
        length (filter (\<lambda>r. req_requestedBy r = userId \<and>
                          (req_status r = PENDING \<or> req_status r = ACCEPTED_BY_TARGET)) xs)" for xs
    by (induction xs) auto
  then show ?thesis
    by (simp add: pendingCount_def openRequestCount_def)
qed

lemma createSwapRequest_cap:
  assumes "requireRole [STAFF] actor = Inr u"
  shows "error (fst (createSwapRequest d actor now newId assignmentId targetStaffId)) = Some [Str capMessage]
         \<longleftrightarrow> pendingCount d (user_id u) \<ge> 3"
  using assms
  by (simp add: createSwapRequest_def failure_def ok_def capMessage_def
           split: option.splits)

lemma createDropRequest_cap:
  assumes "requireRole [STAFF] actor = Inr u"
  shows "error (fst (createDropRequest ev d actor now newId assignmentId)) = Some [Str capMessage]
         \<longleftrightarrow> pendingCount d (user_id u) \<ge> 3"
  using assms
  by (simp add: createDropRequest_def failure_def ok_def capMessage_def
           split: option.splits)

text \<open>
  C2, as stated, fails: the cap counts the requests in status \<open>PENDING\<close> only. A worker
  with three swaps in status \<open>ACCEPTED_BY_TARGET\<close> and no pending request creates a fourth
  swap request, and a drop request, with success.
\<close>

theorem request_cap_counterexample:
  "openRequestCount dbAccepted ''w1'' = 3 \<and>
   fst (createSwapRequest dbAccepted (Some staff1) 0 ''r4'' ''a4'' ''w2'') = ok \<and>
   fst (createDropRequest env0 dbAccepted (Some staff1) 0 ''r4'' ''a4'') = ok"
  by code_simp

text \<open>
  C2, amended. For a worker with the role \<open>STAFF\<close>, creating a swap request or a drop
  request is rejected with the cap message, the database unchanged, whenever the worker has
  3 or more requests in status \<open>PENDING\<close>; with fewer than 3 pending requests neither call
  returns the cap message, and so in particular when the worker has fewer than 3 requests in
  status \<open>PENDING\<close> or \<open>ACCEPTED_BY_TARGET\<close>.
\<close>

theorem request_cap:
  assumes staff: "requireRole [STAFF] actor = Inr u"
  shows "(pendingCount d (user_id u) \<ge> 3 \<longrightarrow>
            createSwapRequest d actor now newId assignmentId targetStaffId = (failure capMessage, d) \<and>
            createDropRequest ev d actor now newId assignmentId = (failure capMessage, d)) \<and>
         (pendingCount d (user_id u) < 3 \<longrightarrow>
            error (fst (createSwapRequest d actor now newId assignmentId targetStaffId)) \<noteq> Some [Str capMessage] \<and>
            error (fst (createDropRequest ev d actor now newId assignmentId)) \<noteq> Some [Str capMessage]) \<and>
         (openRequestCount d (user_id u) < 3 \<longrightarrow> pendingCount d (user_id u) < 3)"
proof -
  have a: "pendingCount d (user_id u) \<ge> 3 \<Longrightarrow>
            createSwapRequest d actor now newId assignmentId targetStaffId = (failure capMessage, d)"
    using staff by (simp add: createSwapRequest_def)
  have b: "pendingCount d (user_id u) \<ge> 3 \<Longrightarrow>
            createDropRequest ev d actor now newId assignmentId = (failure capMessage, d)"
    using staff by (simp add: createDropRequest_def)
  have c: "openRequestCount d (user_id u) < 3 \<Longrightarrow> pendingCount d (user_id u) < 3"
    using pendingCount_le_open [of d "user_id u"] by simp
  show ?thesis
    using a b c createSwapRequest_cap [OF staff] createDropRequest_cap [OF staff]
    by (simp add: not_le [symmetric])
qed

theorem request_cap_witness:
  "createSwapRequest dbPending (Some staff1) 0 ''r4'' ''a4'' ''w2'' = (failure capMessage, dbPending) \<and>
   createDropRequest env0 dbPending (Some staff1) 0 ''r4'' ''a4'' = (failure capMessage, dbPending) \<and>
   error (fst (createSwapRequest dbAccepted (Some staff1) 0 ''r4'' ''a4'' ''w2'')) \<noteq> Some [Str capMessage] \<and>
   error (fst (createDropRequest env0 dbAccepted (Some staff1) 0 ''r4'' ''a4'')) \<noteq> Some [Str capMessage]"
proof -
  have staff: "requireRole [STAFF] (Some staff1) = Inr staff1"
    by (simp add: requireRole_def requireAuth_def staff1_def)
  have p: "pendingCount dbPending (user_id staff1) \<ge> 3" by code_simp
  have a: "pendingCount dbAccepted (user_id staff1) < 3" by code_simp
  show ?thesis
    using p a
      request_cap [OF staff, of dbPending 0 "''r4''" "''a4''" "''w2''" env0]
      request_cap [OF staff, of dbAccepted 0 "''r4''" "''a4''" "''w2''" env0]
    by simp
qed

subsection \<open>Cancelling a processed request\<close>

text \<open>
  C7, as stated, fails for the \<^verbatim>\<open>cancelSwapRequest\<close> of the my-shifts swap actions: on an
  approved or denied request it fails with another message.
\<close>

theorem cancel_processed_counterexample:
  "map req_status (swapRequests dbProcessed) = [APPROVED, DENIED] \<and>
   error (fst (cancelSwapRequest_myShifts dbProcessed (Some staff1) 9 ''r1'')) =
     Some [Str ''Only pending requests can be cancelled''] \<and>
   error (fst (cancelSwapRequest_myShifts dbProcessed (Some staff1) 9 ''r2'')) =
     Some [Str ''Only pending requests can be cancelled'']"
  by code_simp

text \<open>
  C7, amended. When the requester cancels a request whose status is \<open>APPROVED\<close> or
  \<open>DENIED\<close>, the call fails and the whole database, and so the status, the reviewer, the
  review time and the review notes of the request, is as before. The message is
  \<open>This request has already been processed\<close> from \<^verbatim>\<open>cancelSwapRequest\<close> of the
  swap-requests actions, and \<open>Only pending requests can be cancelled\<close> from
  \<^verbatim>\<open>cancelSwapRequest\<close> of the my-shifts swap actions, which a worker with the role
  \<open>STAFF\<close> can call.
\<close>

theorem cancel_processed:
  assumes who: "actor = Some u"
    and req: "find (\<lambda>r. req_id r = requestId) (swapRequests d) = Some request"
    and own: "req_requestedBy request = user_id u"
    and st: "req_status request = APPROVED \<or> req_status request = DENIED"
  shows "cancelSwapRequest d actor now requestId =
           (failure ''This request has already been processed'', d) \<and>
         (user_role u = STAFF \<longrightarrow>
            cancelSwapRequest_myShifts d actor now requestId =
              (failure ''Only pending requests can be cancelled'', d))"
  using who req own st
  by (auto simp add: cancelSwapRequest_def cancelSwapRequest_myShifts_def requireAuth_def
        requireRole_def)

theorem cancel_processed_witness:
  "cancelSwapRequest dbProcessed (Some staff1) 9 ''r1'' =
     (failure ''This request has already been processed'', dbProcessed) \<and>
   cancelSwapRequest dbProcessed (Some staff1) 9 ''r2'' =
     (failure ''This request has already been processed'', dbProcessed) \<and>
   cancelSwapRequest_myShifts dbProcessed (Some staff1) 9 ''r1'' =
     (failure ''Only pending requests can be cancelled'', dbProcessed)"
proof -
  have f1: "find (\<lambda>r. req_id r = ''r1'') (swapRequests dbProcessed) = Some reqApproved"
    by code_simp
  have f2: "find (\<lambda>r. req_id r = ''r2'') (swapRequests dbProcessed) = Some reqDenied"
    by code_simp
  have o1: "req_requestedBy reqApproved = user_id staff1"
    by (simp add: reqApproved_def mkReq_def staff1_def)
  have o2: "req_requestedBy reqDenied = user_id staff1"
    by (simp add: reqDenied_def mkReq_def staff1_def)
  have s1: "req_status reqApproved = APPROVED \<or> req_status reqApproved = DENIED"
    by (simp add: reqApproved_def mkReq_def)
  have s2: "req_status reqDenied = APPROVED \<or> req_status reqDenied = DENIED"
    by (simp add: reqDenied_def mkReq_def)
  have r: "user_role staff1 = STAFF" by (simp add: staff1_def)
  show ?thesis
    using r cancel_processed [OF refl f1 o1 s1, of 9] cancel_processed [OF refl f2 o2 s2, of 9]
    by simp
qed

subsection \<open>The cascade of a shift edit\<close>

lemma cancelRequests_distinct:
  assumes "distinct (map req_id rs)"
  shows "cancelRequests (map req_id (filter P rs)) now rs =
         map (\<lambda>r. if P r then cancelledByEdit now r else r) rs"
proof -
  have "r \<in> set rs \<Longrightarrow> req_id r \<in> set (map req_id (filter P rs)) \<longleftrightarrow> P r" for r
    using assms by (auto simp add: distinct_map inj_on_def)
  then show ?thesis
    by (simp add: cancelRequests_def cancelledByEdit_def)
qed

lemma cascadeCancel_requests:
  assumes "uniqueRequestIds d"
  shows "swapRequests (cascadeCancel d now shiftId) =
         map (\<lambda>r. if req_status r = PENDING \<and> onShift d shiftId r then cancelledByEdit now r else r)
             (swapRequests d)"
proof -
  let ?as = "filter (\<lambda>a. asg_shiftId a = shiftId) (shiftAssignments d)"
  let ?P = "\<lambda>r. req_status r = PENDING \<and> req_shiftAssignmentId r \<in> set (map asg_id ?as)"
  have P: "?P r \<longleftrightarrow> req_status r = PENDING \<and> onShift d shiftId r" for r
    by (force simp add: onShift_def)
  have dist: "distinct (map req_id (swapRequests d))"
    using assms by (simp add: uniqueRequestIds_def)
  have none: "map (\<lambda>r. if ?P r then cancelledByEdit now r else r) (swapRequests d) = swapRequests d"
    if "filter ?P (swapRequests d) = []"
  proof -
    from that have "\<forall>r\<in>set (swapRequests d). \<not> ?P r"
      by (simp only: filter_empty_conv)
    then show ?thesis
      by (intro map_idI) auto
  qed
  have noas: "filter ?P (swapRequests d) = []" if "?as = []"
    using that by simp
  have "swapRequests (cascadeCancel d now shiftId) =
        map (\<lambda>r. if ?P r then cancelledByEdit now r else r) (swapRequests d)"
  proof (cases "?as = []")
    case True
    have "swapRequests (cascadeCancel d now shiftId) = swapRequests d"
      using True by (simp add: cascadeCancel_def)
    then show ?thesis
      using none [OF noas [OF True]] by simp
  next
    case False
    show ?thesis
    proof (cases "filter ?P (swapRequests d) = []")
      case True
      have "swapRequests (cascadeCancel d now shiftId) = swapRequests d"
        using True False by (simp add: cascadeCancel_def Let_def)
      then show ?thesis
        using none [OF True] by simp
    next
      case nonempty: False
      have "swapRequests (cascadeCancel d now shiftId) =
            cancelRequests (map req_id (filter ?P (swapRequests d))) now (swapRequests d)"
        using nonempty False by (simp add: cascadeCancel_def Let_def)
      then show ?thesis
        by (simp only: cancelRequests_distinct [OF dist])
    qed
  qed
  also have "\<dots> = map (\<lambda>r. if req_status r = PENDING \<and> onShift d shiftId r
                            then cancelledByEdit now r else r) (swapRequests d)"
    by (rule map_cong [OF refl]) (simp only: P)
  finally show ?thesis .
qed


text \<open>
  C6. After a successful edit of a shift, the swap and drop requests are those from before,
  in which exactly the requests that were in status \<open>PENDING\<close> and reference an assignment
  of the edited shift have the status \<open>CANCELLED\<close>, the synthetic review note and the time
  of the edit; every other request, whatever its status, is the same row as before. The
  assignments are unchanged.
\<close>

theorem cascade_cancellation:
  assumes uniq: "uniqueRequestIds d"
    and succ: "success (fst (updateShift d actor now f))"
  shows "swapRequests (snd (updateShift d actor now f)) =
           map (\<lambda>r. if req_status r = PENDING \<and> onShift d (f_shiftId f) r
                     then cancelledByEdit now r else r) (swapRequests d) \<and>
         shiftAssignments (snd (updateShift d actor now f)) = shiftAssignments d"
proof -
  obtain u where auth: "requireRole [MANAGER, ADMIN] actor = Inr u"
    using succ by (cases "requireRole [MANAGER, ADMIN] actor")
                  (simp_all add: updateShift_def failure_def)
  have schema: "updateShiftSchema f"
    using succ auth by (auto simp add: updateShift_def failure_def split: if_splits)
  have range: "\<not> f_version f + 1 > int4Max"
    using succ auth schema by (auto simp add: updateShift_def failure_def split: if_splits)
  let ?hit = "\<lambda>s. shift_id s = f_shiftId f \<and> shift_version s = f_version f"
  have hit: "filter ?hit (shifts d) \<noteq> []"
    using succ auth schema range
    by (auto simp add: updateShift_def failure_def Let_def split: if_splits option.splits)
  obtain d1 where d1: "snd (updateShift d actor now f) = cascadeCancel d1 now (f_shiftId f)"
    and same: "swapRequests d1 = swapRequests d" "shiftAssignments d1 = shiftAssignments d"
    using auth schema hit range by (simp add: updateShift_def Let_def)
  have u1: "uniqueRequestIds d1"
    using uniq same by (simp add: uniqueRequestIds_def)
  have on: "onShift d1 (f_shiftId f) = onShift d (f_shiftId f)"
    using same by (simp add: onShift_def fun_eq_iff)
  have asg: "shiftAssignments (cascadeCancel d1 now (f_shiftId f)) = shiftAssignments d1"
    by (simp add: cascadeCancel_def Let_def)
  show ?thesis
    using cascadeCancel_requests [OF u1, of now "f_shiftId f"] d1 same on asg by simp
qed

text \<open>
  The edit of \<open>s1\<close> cancels its two pending requests and leaves the accepted swap, the
  approved drop and the pending request on \<open>s2\<close> as they were.
\<close>

theorem cascade_cancellation_witness:
  "map req_status (swapRequests (snd (updateShift dbEdit (Some manager1) 50 formEdit))) =
     [CANCELLED, CANCELLED, ACCEPTED_BY_TARGET, APPROVED, PENDING] \<and>
   map req_reviewNotes (swapRequests (snd (updateShift dbEdit (Some manager1) 50 formEdit))) =
     [Some ''Automatically cancelled because the shift was modified'',
      Some ''Automatically cancelled because the shift was modified'', None, None, None] \<and>
   map req_reviewedBy (swapRequests (snd (updateShift dbEdit (Some manager1) 50 formEdit))) =
     map req_reviewedBy (swapRequests dbEdit)"
proof -
  let ?after = "map (\<lambda>r. if req_status r = PENDING \<and> onShift dbEdit (f_shiftId formEdit) r
                           then cancelledByEdit 50 r else r) (swapRequests dbEdit)"
  have u: "uniqueRequestIds dbEdit" by code_simp
  have s: "success (fst (updateShift dbEdit (Some manager1) 50 formEdit))" by code_simp
  have m1: "map req_status ?after = [CANCELLED, CANCELLED, ACCEPTED_BY_TARGET, APPROVED, PENDING]"
    by code_simp
  have m2: "map req_reviewNotes ?after =
     [Some ''Automatically cancelled because the shift was modified'',
      Some ''Automatically cancelled because the shift was modified'', None, None, None]"
    by code_simp
  have m3: "map req_reviewedBy ?after = map req_reviewedBy (swapRequests dbEdit)"
    by code_simp
  show ?thesis
    using cascade_cancellation [OF u s] m1 m2 m3 by simp
qed

subsection \<open>The version of a shift\<close>
















































subsection \<open>Approval of a swap\<close>

lemma approve_example:
  "\<not> doubleBooked env0 dbSwap ''w2'' \<and>
   success (fst (approveSwapRequest dbSwap (Some manager1) 50 ''r1'' None)) \<and>
   doubleBooked env0 (snd (approveSwapRequest dbSwap (Some manager1) 50 ''r1'' None)) ''w2''"
  by code_simp

text \<open>
  C9. When a manager or administrator approves a swap request in status
  \<open>ACCEPTED_BY_TARGET\<close> whose assignment exists, the call succeeds whatever else the database
  holds: the request becomes \<open>APPROVED\<close> with the reviewer and the time, and the row of the
  assignment, the same row, gets the target as its worker, the approver as \<open>assignedBy\<close>
  and the time as \<open>assignedAt\<close>. No constraint is evaluated, and there is a state in which
  the target is not double-booked before the approval and is double-booked after it.
\<close>

theorem approve_swap_unchecked:
  assumes auth: "requireRole [MANAGER, ADMIN] actor = Inr u"
    and req: "find (\<lambda>r. req_id r = requestId) (swapRequests d) = Some request"
    and ty: "req_type request = SWAP"
    and st: "req_status request = ACCEPTED_BY_TARGET"
    and tgt: "req_targetStaffId request = Some target" "target \<noteq> []"
    and asg: "find (\<lambda>a. asg_id a = req_shiftAssignmentId request) (shiftAssignments d) = Some assignment"
  shows "approveSwapRequest d actor now requestId notes =
           (ok, d\<lparr>swapRequests := map (\<lambda>r. if req_id r = requestId then approved u now notes r else r)
                                      (swapRequests d),
                  shiftAssignments := map (\<lambda>a. if asg_id a = asg_id assignment
                                                then a\<lparr>asg_staffId := target,
                                                       asg_assignedBy := user_id u,
                                                       asg_assignedAt := now\<rparr>
                                                else a) (shiftAssignments d)\<rparr>) \<and>
         (\<exists>ev d0 actor0 now0 requestId0 notes0 target0.
            \<not> doubleBooked ev d0 target0 \<and>
            success (fst (approveSwapRequest d0 actor0 now0 requestId0 notes0)) \<and>
            doubleBooked ev (snd (approveSwapRequest d0 actor0 now0 requestId0 notes0)) target0)"
proof -
  have "approveSwapRequest d actor now requestId notes =
           (ok, d\<lparr>swapRequests := map (\<lambda>r. if req_id r = requestId then approved u now notes r else r)
                                      (swapRequests d),
                  shiftAssignments := map (\<lambda>a. if asg_id a = asg_id assignment
                                                then a\<lparr>asg_staffId := target,
                                                       asg_assignedBy := user_id u,
                                                       asg_assignedAt := now\<rparr>
                                                else a) (shiftAssignments d)\<rparr>)"
    using auth req ty st tgt asg
    by (simp add: approveSwapRequest_def updateRequest_def approved_def Let_def)
  then show ?thesis
    using approve_example by blast
qed


text \<open>
  In \<open>dbSwap\<close> the approval gives the 09:00 to 17:00 shift to \<open>w2\<close>, who holds the 12:00
  to 20:00 shift of the same day; the constraint engine reports \<open>SHIFT_OVERLAP\<close> for that
  worker and shift.
\<close>

theorem approve_swap_unchecked_witness:
  "shiftAssignments (snd (approveSwapRequest dbSwap (Some manager1) 50 ''r1'' None)) =
     [(mkAsg ''a1'' ''sA'' ''w2'')\<lparr>asg_assignedAt := 50\<rparr>, mkAsg ''a2'' ''sB'' ''w2''] \<and>
   doubleBooked env0 (snd (approveSwapRequest dbSwap (Some manager1) 50 ''r1'' None)) ''w2'' \<and>
   ''SHIFT_OVERLAP'' \<in> set (map v_code (violations (validateAssignment env0 dbSwap ''w2''
                               (toShiftData (mkShift ''sA'' 10 ''09:00:00'' ''17:00:00'')))))"
proof -
  have auth: "requireRole [MANAGER, ADMIN] (Some manager1) = Inr manager1"
    by (simp add: requireRole_def requireAuth_def manager1_def)
  have req: "find (\<lambda>r. req_id r = ''r1'') (swapRequests dbSwap) =
               Some (mkReq ''r1'' ''a1'' SWAP ACCEPTED_BY_TARGET)"
    by code_simp
  have ty: "req_type (mkReq ''r1'' ''a1'' SWAP ACCEPTED_BY_TARGET) = SWAP"
    by (simp add: mkReq_def)
  have st: "req_status (mkReq ''r1'' ''a1'' SWAP ACCEPTED_BY_TARGET) = ACCEPTED_BY_TARGET"
    by (simp add: mkReq_def)
  have tgt: "req_targetStaffId (mkReq ''r1'' ''a1'' SWAP ACCEPTED_BY_TARGET) = Some ''w2''"
    by (simp add: mkReq_def)
  have ne: "''w2'' \<noteq> []" by simp
  have asg: "find (\<lambda>a. asg_id a = req_shiftAssignmentId (mkReq ''r1'' ''a1'' SWAP ACCEPTED_BY_TARGET))
                  (shiftAssignments dbSwap) = Some (mkAsg ''a1'' ''sA'' ''w1'')"
    by code_simp
  have m: "map (\<lambda>a. if asg_id a = asg_id (mkAsg ''a1'' ''sA'' ''w1'')
                     then a\<lparr>asg_staffId := ''w2'', asg_assignedBy := user_id manager1,
                            asg_assignedAt := 50\<rparr>
                     else a) (shiftAssignments dbSwap) =
           [(mkAsg ''a1'' ''sA'' ''w2'')\<lparr>asg_assignedAt := 50\<rparr>, mkAsg ''a2'' ''sB'' ''w2'']"
    by code_simp
  have b: "doubleBooked env0 (snd (approveSwapRequest dbSwap (Some manager1) 50 ''r1'' None)) ''w2''"
    by code_simp
  have v: "''SHIFT_OVERLAP'' \<in> set (map v_code (violations (validateAssignment env0 dbSwap ''w2''
                               (toShiftData (mkShift ''sA'' 10 ''09:00:00'' ''17:00:00'')))))"
    by code_simp
  show ?thesis
    using approve_swap_unchecked [OF auth req ty st tgt ne asg, of 50 None] m b v
    by simp
qed

subsection \<open>Self-assignment\<close>











end
